theory Spec2Isabelle
  imports Main "HOL-Library.Word" "HOL-Library.Sublist" "HOL-Library.AList"
begin

section \<open>Values of the Python runtime\<close>

text \<open>
  The metadata payload and the consumer configuration both come from JSON, so every value
  the engine of \<^verbatim>\<open>main.py\<close> sees is \<^verbatim>\<open>None\<close>, a \<^verbatim>\<open>bool\<close>, an \<^verbatim>\<open>int\<close>
  (unbounded), a \<^verbatim>\<open>float\<close> (kept as its IEEE-754 binary64 bit pattern; the code never
  looks inside one), a \<^verbatim>\<open>str\<close>, a \<^verbatim>\<open>list\<close> or a \<^verbatim>\<open>dict\<close> with \<^verbatim>\<open>str\<close> keys.
  A dict is an association list in insertion order, which is the order \<^verbatim>\<open>.items()\<close>
  iterates in; a Python dict holds each key once.
\<close>

datatype pyval =
    VNone
  | VBool bool
  | VInt int
  | VFloat "64 word"
  | VStr string
  | VList "pyval list"
  | VDict "(string \<times> pyval) list"

type_synonym dict = "(string \<times> pyval) list"

text \<open>Exceptions that the functions below raise or let escape.\<close>

datatype py_error =
    HTTPException (status_code: nat) (detail: string)
  | AttributeError

text \<open>\<^verbatim>\<open>type(value).__name__\<close>\<close>

fun type_name :: "pyval \<Rightarrow> string" where
  "type_name VNone = ''NoneType''"
| "type_name (VBool _) = ''bool''"
| "type_name (VInt _) = ''int''"
| "type_name (VFloat _) = ''float''"
| "type_name (VStr _) = ''str''"
| "type_name (VList _) = ''list''"
| "type_name (VDict _) = ''dict''"

text \<open>
  \<^verbatim>\<open>isinstance\<close> follows Python's class hierarchy: \<^verbatim>\<open>bool\<close> is a subclass of
  \<^verbatim>\<open>int\<close>, so \<^verbatim>\<open>isinstance(True, (int, float))\<close> holds.
\<close>

fun isinstance_str :: "pyval \<Rightarrow> bool" where
  "isinstance_str (VStr _) = True"
| "isinstance_str _ = False"

fun isinstance_int_float :: "pyval \<Rightarrow> bool" where
  "isinstance_int_float (VInt _) = True"
| "isinstance_int_float (VFloat _) = True"
| "isinstance_int_float (VBool _) = True"
| "isinstance_int_float _ = False"

fun isinstance_bool :: "pyval \<Rightarrow> bool" where
  "isinstance_bool (VBool _) = True"
| "isinstance_bool _ = False"

fun isinstance_list :: "pyval \<Rightarrow> bool" where
  "isinstance_list (VList _) = True"
| "isinstance_list _ = False"

fun isinstance_dict :: "pyval \<Rightarrow> bool" where
  "isinstance_dict (VDict _) = True"
| "isinstance_dict _ = False"

text \<open>\<^verbatim>\<open>v == "literal"\<close>: only a \<^verbatim>\<open>str\<close> with the same characters equals a \<^verbatim>\<open>str\<close>.\<close>

fun eq_str :: "pyval \<Rightarrow> string \<Rightarrow> bool" where
  "eq_str (VStr s) t = (s = t)"
| "eq_str _ t = False"

text \<open>\<^verbatim>\<open>key in d\<close> and \<^verbatim>\<open>d.get(key, default)\<close>; \<^verbatim>\<open>d[key]\<close> is \<^term>\<open>map_of d key\<close>.\<close>

definition py_in :: "string \<Rightarrow> dict \<Rightarrow> bool" where
  "py_in key d = (map_of d key \<noteq> None)"

definition dict_get :: "dict \<Rightarrow> string \<Rightarrow> pyval \<Rightarrow> pyval" where
  "dict_get d key dflt = (case map_of d key of None \<Rightarrow> dflt | Some v \<Rightarrow> v)"

text \<open>
  Truthiness of the validator's result in \<^verbatim>\<open>if error:\<close>: \<^verbatim>\<open>None\<close> and the empty
  string are false.
\<close>

fun truthy :: "string option \<Rightarrow> bool" where
  "truthy None = False"
| "truthy (Some s) = (s \<noteq> [])"

text \<open>
  Text spliced into an f-string. A \<^verbatim>\<open>str\<close> is spliced as it is. For any other value
  Python calls \<^verbatim>\<open>str()\<close>, whose output (floats, the quoting of strings inside lists) is
  not part of \<^verbatim>\<open>main.py\<close>; it is the parameter \<open>py_str\<close> of the functions below, and
  every result holds for each such function.
\<close>

definition quoted :: "string \<Rightarrow> string" where
  "quoted s = [CHR 0x27] @ s @ [CHR 0x27]"

fun fstr :: "(pyval \<Rightarrow> string) \<Rightarrow> pyval \<Rightarrow> string" where
  "fstr py_str (VStr s) = s"
| "fstr py_str v = py_str v"

section \<open>The Field Validator\<close>

text \<open>
  \<^verbatim>\<open>validate_field_type(field_name, value, expected_type)\<close> returns \<^verbatim>\<open>None\<close> or a
  message. \<open>validate_nested_fields\<close> is its loop over \<^verbatim>\<open>nested_schema.items()\<close>
  (lines 43 to 48), which returns from the function at the first absent nested field and at
  the first truthy nested message, and falls through to \<^verbatim>\<open>return None\<close> otherwise.
  When the \<^verbatim>\<open>"schema"\<close> entry of the node is not a dict, \<^verbatim>\<open>.items()\<close> raises
  \<^verbatim>\<open>AttributeError\<close>. The interpreter's recursion limit is not modelled.
\<close>

text \<open>
  The recursion descends into the values held by the schema dict; these two bounds are what
  its termination needs.
\<close>

lemma size_map_of_entry:
  "map_of al k = Some v \<Longrightarrow> size v < size_list (size_prod (\<lambda>_. 0) size) al"
  by (induction al) (auto split: if_splits)

lemma size_dict_get_schema:
  "dict_get expected_dict key (VDict []) = VDict nested_schema \<Longrightarrow>
   size_list (size_prod (\<lambda>_. 0) size) nested_schema < size (VDict expected_dict)"
  by (auto simp: dict_get_def split: option.splits dest: size_map_of_entry)

function validate_field_type ::
    "(pyval \<Rightarrow> string) \<Rightarrow> string \<Rightarrow> pyval \<Rightarrow> pyval \<Rightarrow> py_error + string option"
  and validate_nested_fields ::
    "(pyval \<Rightarrow> string) \<Rightarrow> string \<Rightarrow> dict \<Rightarrow> dict \<Rightarrow> py_error + string option"
where
  "validate_field_type py_str field_name value expected_type =
     (case expected_type of
        VDict expected_dict \<Rightarrow>
          (if eq_str (dict_get expected_dict ''type'' VNone) ''object'' then
             (case value of
                VDict value_dict \<Rightarrow>
                  (case dict_get expected_dict ''schema'' (VDict []) of
                     VDict nested_schema \<Rightarrow>
                       validate_nested_fields py_str field_name value_dict nested_schema
                   | _ \<Rightarrow> Inl AttributeError)
              | _ \<Rightarrow>
                  Inr (Some (''expected object for '' @ quoted field_name @ '', got ''
                             @ type_name value)))
           else Inr (Some (''unsupported nested type structure in '' @ quoted field_name)))
      | _ \<Rightarrow>
          (if eq_str expected_type ''string'' then
             (if \<not> isinstance_str value
              then Inr (Some (''expected string, got '' @ type_name value))
              else Inr None)
           else if eq_str expected_type ''number'' then
             (if \<not> isinstance_int_float value
              then Inr (Some (''expected number, got '' @ type_name value))
              else Inr None)
           else if eq_str expected_type ''boolean'' then
             (if \<not> isinstance_bool value
              then Inr (Some (''expected boolean, got '' @ type_name value))
              else Inr None)
           else if eq_str expected_type ''array'' then
             (if \<not> isinstance_list value
              then Inr (Some (''expected array, got '' @ type_name value))
              else Inr None)
           else if eq_str expected_type ''object'' then
             (if \<not> isinstance_dict value
              then Inr (Some (''expected object, got '' @ type_name value))
              else Inr None)
           else if eq_str expected_type ''array_of_object'' then
             (case value of
                VList items \<Rightarrow>
                  (if \<not> list_all isinstance_dict items
                   then Inr (Some ''expected array of objects, but one or more elements are not objects'')
                   else Inr None)
              | _ \<Rightarrow> Inr (Some (''expected array of objects, got '' @ type_name value)))
           else Inr (Some (''unsupported data type '' @ quoted (fstr py_str expected_type)
                           @ '' in config''))))"
| "validate_nested_fields py_str field_name value_dict [] = Inr None"
| "validate_nested_fields py_str field_name value_dict ((nested_field, nested_type) # rest) =
     (case map_of value_dict nested_field of
        None \<Rightarrow>
          Inr (Some (''missing nested field '' @ quoted nested_field @ '' in ''
                     @ quoted field_name))
      | Some nested_value \<Rightarrow>
          (case validate_field_type py_str (field_name @ ''.'' @ nested_field)
                  nested_value nested_type of
             Inl exc \<Rightarrow> Inl exc
           | Inr error \<Rightarrow>
               if truthy error then Inr error
               else validate_nested_fields py_str field_name value_dict rest))"
  by pat_completeness auto

termination
  by (relation "measure (\<lambda>x. case x of
          Inl (_, _, _, expected_type) \<Rightarrow> size expected_type
        | Inr (_, _, _, items) \<Rightarrow> size_list (size_prod (\<lambda>_. 0) size) items)")
     (auto dest: size_dict_get_schema)

declare validate_field_type.simps [simp del]

section \<open>The Metadata Validator\<close>

text \<open>
  \<open>validate_typed_fields\<close> is the loop of \<^verbatim>\<open>validate_metadata\<close> over
  \<^verbatim>\<open>field_types.items()\<close> (lines 100 to 108): a field absent from the metadata is passed
  over, and the first truthy message raises \<^verbatim>\<open>HTTPException(400)\<close>.
\<close>

fun validate_typed_fields ::
    "(pyval \<Rightarrow> string) \<Rightarrow> dict \<Rightarrow> dict \<Rightarrow> py_error + unit" where
  "validate_typed_fields py_str metadata [] = Inr ()"
| "validate_typed_fields py_str metadata ((field, expected_type) # rest) =
     (case map_of metadata field of
        None \<Rightarrow> validate_typed_fields py_str metadata rest
      | Some value \<Rightarrow>
          (case validate_field_type py_str field value expected_type of
             Inl exc \<Rightarrow> Inl exc
           | Inr error_msg \<Rightarrow>
               (case error_msg of
                  None \<Rightarrow> validate_typed_fields py_str metadata rest
                | Some msg \<Rightarrow>
                    if truthy error_msg
                    then Inl (HTTPException 400
                           (''Incorrect data type for field '' @ quoted field @ '': '' @ msg))
                    else validate_typed_fields py_str metadata rest)))"

text \<open>
  \<^verbatim>\<open>validate_metadata(metadata, required_fields, field_types)\<close> returns nothing or raises.
  \<^verbatim>\<open>required_fields\<close> is a list of field names, as the configuration format has it; the
  list \<^verbatim>\<open>missing\<close> is spliced into the message by \<^verbatim>\<open>str()\<close>.
\<close>

definition validate_metadata ::
    "(pyval \<Rightarrow> string) \<Rightarrow> dict \<Rightarrow> string list \<Rightarrow> dict \<Rightarrow> py_error + unit" where
  "validate_metadata py_str metadata required_fields field_types =
     (let missing = filter (\<lambda>f. \<not> py_in f metadata) required_fields in
      if missing \<noteq> []
      then Inl (HTTPException 400
             (''Missing required fields: '' @ fstr py_str (VList (map VStr missing))))
      else validate_typed_fields py_str metadata field_types)"

section \<open>The Normalizer\<close>

text \<open>
  \<^verbatim>\<open>normalize_metadata(metadata, mappings)\<close>: \<open>normalize_loop\<close> is the loop over
  \<^verbatim>\<open>mappings.items()\<close> with the dict \<^verbatim>\<open>normalized\<close> under construction as its last
  argument. \<^verbatim>\<open>normalized[internal_key] = v\<close> is \<^const>\<open>AList.update\<close>: an existing key
  keeps its position and takes the new value, a new key goes to the end. The mappings are
  from field name to field name, as the configuration format has them. The loop writes to
  \<^verbatim>\<open>normalized\<close> only; \<^verbatim>\<open>metadata\<close> and \<^verbatim>\<open>mappings\<close> are read.
\<close>

fun normalize_loop :: "dict \<Rightarrow> (string \<times> string) list \<Rightarrow> dict \<Rightarrow> dict" where
  "normalize_loop metadata [] normalized = normalized"
| "normalize_loop metadata ((consumer_key, internal_key) # rest) normalized =
     (case map_of metadata consumer_key of
        None \<Rightarrow> normalize_loop metadata rest normalized
      | Some v \<Rightarrow> normalize_loop metadata rest (AList.update internal_key v normalized))"

definition normalize_metadata :: "dict \<Rightarrow> (string \<times> string) list \<Rightarrow> dict" where
  "normalize_metadata metadata mappings = normalize_loop metadata mappings []"

section \<open>A rendering for the examples\<close>

text \<open>
  \<open>sample_str\<close> instantiates \<open>py_str\<close> in the closed examples. It agrees with Python's
  \<^verbatim>\<open>str()\<close> on lists of strings that hold no quote, backslash or non-printable character
  (\<^verbatim>\<open>['email', 'age']\<close>); any other value is shown as its type name in angle brackets.
\<close>

fun comma_sep :: "string list \<Rightarrow> string" where
  "comma_sep [] = []"
| "comma_sep [x] = x"
| "comma_sep (x # y # ys) = x @ '', '' @ comma_sep (y # ys)"

fun sample_str :: "pyval \<Rightarrow> string" where
  "sample_str (VStr s) = quoted s"
| "sample_str (VList xs) = ''['' @ comma_sep (map sample_str xs) @ '']''"
| "sample_str v = ''<'' @ type_name v @ ''>''"

section \<open>Unfolding the validator\<close>

text \<open>
  The validator at a schema node and at a type tag, the fact that none of its messages is
  the empty string (so \<^verbatim>\<open>if error:\<close> tests for a message), and the two loops after a
  prefix of entries that pass.
\<close>

lemma py_in_iff: "py_in key d \<longleftrightarrow> key \<in> fst ` set d"
  by (simp add: py_in_def map_of_eq_None_iff)

lemma validate_field_type_node:
  "validate_field_type py_str field_name value (VDict expected_dict) =
     (if eq_str (dict_get expected_dict ''type'' VNone) ''object'' then
        (case value of
           VDict value_dict \<Rightarrow>
             (case dict_get expected_dict ''schema'' (VDict []) of
                VDict nested_schema \<Rightarrow>
                  validate_nested_fields py_str field_name value_dict nested_schema
              | _ \<Rightarrow> Inl AttributeError)
         | _ \<Rightarrow>
             Inr (Some (''expected object for '' @ quoted field_name @ '', got ''
                        @ type_name value)))
      else Inr (Some (''unsupported nested type structure in '' @ quoted field_name)))"
  by (simp add: validate_field_type.simps)

lemma validate_field_type_tag:
  "validate_field_type py_str field_name value (VStr tag) =
     (if tag = ''string'' then
        (if isinstance_str value then Inr None
         else Inr (Some (''expected string, got '' @ type_name value)))
      else if tag = ''number'' then
        (if isinstance_int_float value then Inr None
         else Inr (Some (''expected number, got '' @ type_name value)))
      else if tag = ''boolean'' then
        (if isinstance_bool value then Inr None
         else Inr (Some (''expected boolean, got '' @ type_name value)))
      else if tag = ''array'' then
        (if isinstance_list value then Inr None
         else Inr (Some (''expected array, got '' @ type_name value)))
      else if tag = ''object'' then
        (if isinstance_dict value then Inr None
         else Inr (Some (''expected object, got '' @ type_name value)))
      else if tag = ''array_of_object'' then
        (case value of
           VList items \<Rightarrow>
             (if list_all isinstance_dict items then Inr None
              else Inr (Some ''expected array of objects, but one or more elements are not objects''))
         | _ \<Rightarrow> Inr (Some (''expected array of objects, got '' @ type_name value)))
      else Inr (Some (''unsupported data type '' @ quoted tag @ '' in config'')))"
  by (simp add: validate_field_type.simps split: pyval.splits)

lemma validate_field_type_unsupported:
  assumes "\<not> isinstance_dict expected_type"
    and "\<forall>tag\<in>set [''string'', ''number'', ''boolean'', ''array'', ''object'', ''array_of_object''].
           \<not> eq_str expected_type tag"
  shows "validate_field_type py_str field_name value expected_type =
           Inr (Some (''unsupported data type '' @ quoted (fstr py_str expected_type)
                      @ '' in config''))"
  using assms by (cases expected_type) (simp_all add: validate_field_type.simps)

lemma validate_nonempty:
  "validate_field_type py_str field_name value expected_type \<noteq> Inr (Some [])"
  "validate_nested_fields py_str field_name value_dict items \<noteq> Inr (Some [])"
proof (induction py_str field_name "value" expected_type and py_str field_name value_dict items
       rule: validate_field_type_validate_nested_fields.induct)
  case (1 py_str field_name "value" expected_type)
  show ?case
  proof (cases expected_type)
    case (VDict expected_dict)
    with 1 show ?thesis
      by (subst validate_field_type.simps)
         (auto simp: quoted_def split: pyval.splits)
  qed (simp_all add: validate_field_type.simps quoted_def split: pyval.splits)
next
  case (2 py_str field_name value_dict)
  then show ?case by simp
next
  case (3 py_str field_name value_dict nested_field nested_type rest)
  then show ?case
    by (auto simp: quoted_def split: option.splits sum.splits)
qed

lemma validate_field_type_truthy:
  "validate_field_type py_str field_name value expected_type = Inr error \<Longrightarrow>
   truthy error \<longleftrightarrow> error \<noteq> None"
  using validate_nonempty(1) [of py_str field_name "value" expected_type]
  by (cases error) auto


lemma validate_nested_fields_passed:
  assumes "\<forall>(f, t)\<in>set passed. \<exists>v. map_of value_dict f = Some v \<and>
             validate_field_type py_str (field_name @ ''.'' @ f) v t = Inr None"
  shows "validate_nested_fields py_str field_name value_dict (passed @ rest) =
         validate_nested_fields py_str field_name value_dict rest"
  using assms by (induction passed) auto

lemma validate_typed_fields_passed:
  assumes "\<forall>(f, t)\<in>set passed. \<forall>v. map_of metadata f = Some v \<longrightarrow>
             validate_field_type py_str f v t = Inr None"
  shows "validate_typed_fields py_str metadata (passed @ rest) =
         validate_typed_fields py_str metadata rest"
  using assms by (induction passed) (auto split: option.splits)

lemma validate_typed_fields_cong:
  assumes "\<forall>f\<in>fst ` set field_types. map_of metadata f = map_of metadata' f"
  shows "validate_typed_fields py_str metadata field_types =
         validate_typed_fields py_str metadata' field_types"
  using assms by (induction field_types) (auto split: option.splits sum.splits)

lemma sublist_quoted: "sublist s (before @ quoted s @ after)"
  unfolding sublist_def quoted_def
  by (intro exI [of _ "before @ [CHR 0x27]"] exI [of _ "[CHR 0x27] @ after"]) simp

section \<open>The normalizer's loop\<close>

text \<open>
  The loop run over a concatenation, the keys of its result, and the fact that an internal
  key keeps its value through entries that do not write to it.
\<close>

lemma map_of_Some_key: "map_of d key = Some v \<Longrightarrow> key \<in> fst ` set d"
  by (force dest: map_of_SomeD)

lemma normalize_loop_append:
  "normalize_loop metadata (xs @ ys) normalized =
   normalize_loop metadata ys (normalize_loop metadata xs normalized)"
  by (induction xs arbitrary: normalized) (auto split: option.splits)

lemma normalize_loop_keys:
  "fst ` set (normalize_loop metadata mappings normalized) =
   fst ` set normalized \<union>
   {internal_key. \<exists>consumer_key. (consumer_key, internal_key) \<in> set mappings \<and>
                    consumer_key \<in> fst ` set metadata}"
proof (induction mappings arbitrary: normalized)
  case Nil
  then show ?case by simp
next
  case (Cons entry mappings)
  obtain c k where entry: "entry = (c, k)" by (cases entry)
  show ?case
  proof (cases "map_of metadata c")
    case None
    then have "c \<notin> fst ` set metadata" by (simp add: map_of_eq_None_iff)
    with None Cons entry show ?thesis by auto
  next
    case (Some v)
    then have "c \<in> fst ` set metadata" by (rule map_of_Some_key)
    with Some Cons entry show ?thesis by (auto simp: dom_update)
  qed
qed

lemma normalize_loop_distinct:
  "distinct (map fst normalized) \<Longrightarrow>
   distinct (map fst (normalize_loop metadata mappings normalized))"
  by (induction mappings arbitrary: normalized)
     (auto split: option.splits simp: distinct_update)

lemma normalize_loop_untouched:
  assumes "\<forall>(c, k)\<in>set mappings. k = internal_key \<longrightarrow> c \<notin> fst ` set metadata"
  shows "map_of (normalize_loop metadata mappings normalized) internal_key =
         map_of normalized internal_key"
  using assms
proof (induction mappings arbitrary: normalized)
  case Nil
  then show ?case by simp
next
  case (Cons entry mappings)
  obtain c k where entry: "entry = (c, k)" by (cases entry)
  show ?case
  proof (cases "map_of metadata c")
    case None
    with Cons entry show ?thesis by simp
  next
    case (Some v)
    then have "c \<in> fst ` set metadata" by (rule map_of_Some_key)
    with Cons.prems entry have "k \<noteq> internal_key" by auto
    with Some Cons entry show ?thesis by (simp add: update_conv')
  qed
qed

lemma normalize_metadata_last_write:
  assumes "map_of metadata consumer_key = Some v"
    and "\<forall>(c, k)\<in>set after. k = internal_key \<longrightarrow> c \<notin> fst ` set metadata"
  shows "map_of (normalize_metadata metadata (before @ (consumer_key, internal_key) # after))
           internal_key = Some v"
  using assms
  by (simp add: normalize_metadata_def normalize_loop_append normalize_loop_untouched update_conv')

lemma card_set_less_length: "\<not> distinct xs \<Longrightarrow> card (set xs) < length xs"
  using card_length [of xs] card_distinct [of xs] by linarith

section \<open>Results about the code\<close>

text \<open>
  C1. The claim is that a boolean checked against the tag \<^verbatim>\<open>"number"\<close> is rejected.
  The code's test is \<^verbatim>\<open>isinstance(value, (int, float))\<close>, which a \<^verbatim>\<open>bool\<close> passes:
  for every field name and either boolean, the validator returns \<^verbatim>\<open>None\<close> (valid).
\<close>

theorem validate_field_type_bool_as_number:
  "validate_field_type py_str field_name (VBool b) (VStr ''number'') = Inr None"
  by (simp add: validate_field_type.simps)

text \<open>
  C2. When at least one required field is not a top-level key of the metadata,
  \<^verbatim>\<open>validate_metadata\<close> raises \<^verbatim>\<open>HTTPException(400)\<close> whose detail is
  \<^verbatim>\<open>Missing required fields:\<close> followed by the list of all absent required fields, in the
  order of \<^verbatim>\<open>required_fields\<close>. No type check takes place: the outcome is the same
  whatever \<^verbatim>\<open>field_types\<close> holds, in particular the same as with no typed field at all.
\<close>

theorem validate_metadata_missing_fields:
  assumes "\<exists>f\<in>set required_fields. f \<notin> fst ` set metadata"
  shows "validate_metadata py_str metadata required_fields field_types =
           Inl (HTTPException 400 (''Missing required fields: '' @
                  py_str (VList (map VStr
                    (filter (\<lambda>f. f \<notin> fst ` set metadata) required_fields)))))
         \<and> validate_metadata py_str metadata required_fields field_types =
           validate_metadata py_str metadata required_fields []"
proof -
  have "filter (\<lambda>f. \<not> py_in f metadata) required_fields =
        filter (\<lambda>f. f \<notin> fst ` set metadata) required_fields"
    by (simp add: py_in_iff)
  moreover have "filter (\<lambda>f. f \<notin> fst ` set metadata) required_fields \<noteq> []"
    using assms by (auto simp: filter_empty_conv)
  ultimately show ?thesis
    by (simp add: validate_metadata_def)
qed

text \<open>
  The example has two of three required fields absent and a typed field whose value would
  fail its type check.
\<close>

theorem validate_metadata_missing_fields_witness:
  "(\<exists>f\<in>set [''email'', ''name'', ''age'']. f \<notin> fst ` set [(''name'', VInt 7)]) \<and>
   validate_metadata sample_str [(''name'', VInt 7)] [''email'', ''name'', ''age'']
       [(''name'', VStr ''string'')] =
     Inl (HTTPException 400 (''Missing required fields: ['' @ quoted ''email'' @ '', ''
            @ quoted ''age'' @ '']''))"
proof -
  have h: "\<exists>f\<in>set [''email'', ''name'', ''age'']. f \<notin> fst ` set [(''name'', VInt 7)]"
    by simp
  show ?thesis
    using h validate_metadata_missing_fields [OF h, of sample_str "[(''name'', VStr ''string'')]"]
    by simp
qed

text \<open>
  C3. When every required field is a top-level key and the validator returns \<^verbatim>\<open>None\<close>
  for every entry of \<^verbatim>\<open>field_types\<close> whose field is in the metadata,
  \<^verbatim>\<open>validate_metadata\<close> returns without raising. An entry of \<^verbatim>\<open>field_types\<close> whose
  field is absent from the metadata is skipped: removing it changes nothing.
\<close>

theorem validate_metadata_succeeds:
  "((\<forall>f\<in>set required_fields. f \<in> fst ` set metadata) \<and>
    (\<forall>(field, expected_type)\<in>set field_types. \<forall>v. map_of metadata field = Some v \<longrightarrow>
        validate_field_type py_str field v expected_type = Inr None)
    \<longrightarrow> validate_metadata py_str metadata required_fields field_types = Inr ())
   \<and> (field \<notin> fst ` set metadata \<longrightarrow>
        validate_metadata py_str metadata required_fields (before @ (field, expected_type) # after)
        = validate_metadata py_str metadata required_fields (before @ after))"
proof (intro conjI impI)
  assume h: "(\<forall>f\<in>set required_fields. f \<in> fst ` set metadata) \<and>
    (\<forall>(field, expected_type)\<in>set field_types. \<forall>v. map_of metadata field = Some v \<longrightarrow>
        validate_field_type py_str field v expected_type = Inr None)"
  then have "filter (\<lambda>f. \<not> py_in f metadata) required_fields = []"
    by (simp add: py_in_iff filter_empty_conv)
  moreover have "validate_typed_fields py_str metadata (field_types @ []) =
                 validate_typed_fields py_str metadata []"
    using h by (intro validate_typed_fields_passed) simp
  ultimately show "validate_metadata py_str metadata required_fields field_types = Inr ()"
    by (simp add: validate_metadata_def)
next
  assume "field \<notin> fst ` set metadata"
  then have none: "map_of metadata field = None"
    by (simp add: map_of_eq_None_iff)
  have "validate_typed_fields py_str metadata (before @ (field, expected_type) # after) =
        validate_typed_fields py_str metadata (before @ after)"
    using none by (induction before) (auto split: option.splits sum.splits)
  then show "validate_metadata py_str metadata required_fields (before @ (field, expected_type) # after)
        = validate_metadata py_str metadata required_fields (before @ after)"
    by (simp only: validate_metadata_def)
qed

theorem validate_metadata_succeeds_witness:
  "validate_metadata sample_str
       [(''name'', VStr ''Ann''), (''age'', VInt 41), (''note'', VNone)]
       [''name'', ''age'']
       [(''name'', VStr ''string''), (''email'', VStr ''string''), (''age'', VStr ''number'')]
     = Inr ()
   \<and> validate_metadata sample_str [(''name'', VInt 3)] [''name'']
       ([(''name'', VStr ''number'')] @ (''email'', VStr ''string'') # [(''name'', VStr ''string'')])
     = validate_metadata sample_str [(''name'', VInt 3)] [''name'']
       ([(''name'', VStr ''number'')] @ [(''name'', VStr ''string'')])"
  using validate_metadata_succeeds [where required_fields = "[''name'', ''age'']"
          and metadata = "[(''name'', VStr ''Ann''), (''age'', VInt 41), (''note'', VNone)]"
          and field_types = "[(''name'', VStr ''string''), (''email'', VStr ''string''),
                              (''age'', VStr ''number'')]"
          and py_str = sample_str and field = "''email''" and before = "[]" and after = "[]"
          and expected_type = VNone]
        validate_metadata_succeeds [where required_fields = "[''name'']"
          and metadata = "[(''name'', VInt 3)]" and field_types = "[]"
          and py_str = sample_str and field = "''email''"
          and before = "[(''name'', VStr ''number'')]" and expected_type = "VStr ''string''"
          and after = "[(''name'', VStr ''string'')]"]
  by (simp add: validate_field_type_tag)

text \<open>
  C4. At a schema node tagged \<^verbatim>\<open>"object"\<close> whose schema is a dict (or is left out):
  a value that is not a dict gives the message naming the field path and the type of the
  value; for a dict, the entries of the schema are taken in order, and the first entry that
  does not pass decides the result, whatever comes after it: if its field is absent from the
  value the message is \<^verbatim>\<open>missing nested field '...' in '...'\<close>, and if the recursive
  call, made with the path \<^verbatim>\<open>field_name + "." + nested_field\<close>, returns a message, that
  message is returned. When every entry passes the result is \<^verbatim>\<open>None\<close>. The two examples
  of the specification are the last two conjuncts.
\<close>

theorem nested_object_validation:
  assumes "eq_str (dict_get expected_dict ''type'' VNone) ''object''"
    and "dict_get expected_dict ''schema'' (VDict []) = VDict nested_schema"
  shows
   "(\<not> isinstance_dict val \<longrightarrow>
       validate_field_type py_str field_name val (VDict expected_dict) =
         Inr (Some (''expected object for '' @ quoted field_name @ '', got '' @ type_name val)))
    \<and> (nested_schema = passed @ (nested_field, nested_type) # rest \<and>
        (\<forall>(f, t)\<in>set passed. \<exists>v. map_of value_dict f = Some v \<and>
            validate_field_type py_str (field_name @ ''.'' @ f) v t = Inr None) \<and>
        map_of value_dict nested_field = None \<longrightarrow>
       validate_field_type py_str field_name (VDict value_dict) (VDict expected_dict) =
         Inr (Some (''missing nested field '' @ quoted nested_field @ '' in ''
                    @ quoted field_name)))
    \<and> (nested_schema = passed @ (nested_field, nested_type) # rest \<and>
        (\<forall>(f, t)\<in>set passed. \<exists>v. map_of value_dict f = Some v \<and>
            validate_field_type py_str (field_name @ ''.'' @ f) v t = Inr None) \<and>
        map_of value_dict nested_field = Some nested_value \<and>
        validate_field_type py_str (field_name @ ''.'' @ nested_field) nested_value nested_type
          = Inr (Some error) \<longrightarrow>
       validate_field_type py_str field_name (VDict value_dict) (VDict expected_dict) =
         Inr (Some error))
    \<and> ((\<forall>(f, t)\<in>set nested_schema. \<exists>v. map_of value_dict f = Some v \<and>
            validate_field_type py_str (field_name @ ''.'' @ f) v t = Inr None) \<longrightarrow>
       validate_field_type py_str field_name (VDict value_dict) (VDict expected_dict) = Inr None)
    \<and> validate_field_type py_str ''address''
         (VDict [(''city'', VStr ''NYC''), (''zip'', VInt 10001)])
         (VDict [(''type'', VStr ''object''),
                 (''schema'', VDict [(''city'', VStr ''string''), (''zip'', VStr ''number'')])])
       = Inr None
    \<and> validate_field_type py_str ''address''
         (VDict [(''city'', VStr ''NYC'')])
         (VDict [(''type'', VStr ''object''),
                 (''schema'', VDict [(''city'', VStr ''string''), (''zip'', VStr ''number'')])])
       = Inr (Some (''missing nested field '' @ quoted ''zip'' @ '' in '' @ quoted ''address''))"
proof -
  have node: "validate_field_type py_str field_name (VDict value_dict) (VDict expected_dict) =
              validate_nested_fields py_str field_name value_dict nested_schema"
    using assms by (simp add: validate_field_type_node)
  have not_mapping: "\<not> isinstance_dict val \<longrightarrow>
       validate_field_type py_str field_name val (VDict expected_dict) =
         Inr (Some (''expected object for '' @ quoted field_name @ '', got '' @ type_name val))"
    using assms(1) by (cases val) (simp_all add: validate_field_type_node)
  have missing: "validate_field_type py_str field_name (VDict value_dict) (VDict expected_dict) =
         Inr (Some (''missing nested field '' @ quoted nested_field @ '' in ''
                    @ quoted field_name))"
    if "nested_schema = passed @ (nested_field, nested_type) # rest"
      and "\<forall>(f, t)\<in>set passed. \<exists>v. map_of value_dict f = Some v \<and>
            validate_field_type py_str (field_name @ ''.'' @ f) v t = Inr None"
      and "map_of value_dict nested_field = None"
    using that by (simp add: node validate_nested_fields_passed)
  have first_error: "validate_field_type py_str field_name (VDict value_dict) (VDict expected_dict) =
         Inr (Some error)"
    if "nested_schema = passed @ (nested_field, nested_type) # rest"
      and "\<forall>(f, t)\<in>set passed. \<exists>v. map_of value_dict f = Some v \<and>
            validate_field_type py_str (field_name @ ''.'' @ f) v t = Inr None"
      and "map_of value_dict nested_field = Some nested_value"
      and e: "validate_field_type py_str (field_name @ ''.'' @ nested_field) nested_value nested_type
          = Inr (Some error)"
  proof -
    have "truthy (Some error)"
      using validate_field_type_truthy [OF e] by simp
    with that show ?thesis
      by (simp add: node validate_nested_fields_passed)
  qed
  have all_pass: "validate_field_type py_str field_name (VDict value_dict) (VDict expected_dict)
        = Inr None"
    if "\<forall>(f, t)\<in>set nested_schema. \<exists>v. map_of value_dict f = Some v \<and>
            validate_field_type py_str (field_name @ ''.'' @ f) v t = Inr None"
    using validate_nested_fields_passed [OF that, of "[]"] by (simp add: node)
  have ex1: "validate_field_type py_str ''address''
         (VDict [(''city'', VStr ''NYC''), (''zip'', VInt 10001)])
         (VDict [(''type'', VStr ''object''),
                 (''schema'', VDict [(''city'', VStr ''string''), (''zip'', VStr ''number'')])])
       = Inr None"
    by (simp add: validate_field_type_node validate_field_type_tag dict_get_def)
  have ex2: "validate_field_type py_str ''address''
         (VDict [(''city'', VStr ''NYC'')])
         (VDict [(''type'', VStr ''object''),
                 (''schema'', VDict [(''city'', VStr ''string''), (''zip'', VStr ''number'')])])
       = Inr (Some (''missing nested field '' @ quoted ''zip'' @ '' in '' @ quoted ''address''))"
    by (simp add: validate_field_type_node validate_field_type_tag dict_get_def)
  show ?thesis
    using not_mapping missing first_error all_pass ex1 ex2
    by (intro conjI impI) (elim conjE, assumption | blast)+
qed

text \<open>
  The four cases at the node \<^verbatim>\<open>{city: string, zip: number}\<close> of field
  \<^verbatim>\<open>address\<close>: a value that is a string, a value without \<^verbatim>\<open>zip\<close>, a value whose
  first nested field has the wrong type (the error of \<^verbatim>\<open>city\<close> is returned, the wrong
  \<^verbatim>\<open>zip\<close> after it is never looked at), and a value that passes.
\<close>

theorem nested_object_validation_witness:
  "validate_field_type sample_str ''address'' (VStr ''NYC'')
       (VDict [(''type'', VStr ''object''),
               (''schema'', VDict [(''city'', VStr ''string''), (''zip'', VStr ''number'')])])
     = Inr (Some (''expected object for '' @ quoted ''address'' @ '', got str''))
   \<and> validate_field_type sample_str ''address'' (VDict [(''city'', VStr ''NYC'')])
       (VDict [(''type'', VStr ''object''),
               (''schema'', VDict [(''city'', VStr ''string''), (''zip'', VStr ''number'')])])
     = Inr (Some (''missing nested field '' @ quoted ''zip'' @ '' in '' @ quoted ''address''))
   \<and> validate_field_type sample_str ''address''
       (VDict [(''city'', VInt 5), (''zip'', VStr ''10001'')])
       (VDict [(''type'', VStr ''object''),
               (''schema'', VDict [(''city'', VStr ''string''), (''zip'', VStr ''number'')])])
     = Inr (Some ''expected string, got int'')
   \<and> validate_field_type sample_str ''address''
       (VDict [(''city'', VStr ''NYC''), (''zip'', VInt 10001)])
       (VDict [(''type'', VStr ''object''),
               (''schema'', VDict [(''city'', VStr ''string''), (''zip'', VStr ''number'')])])
     = Inr None"
proof -
  let ?node = "[(''type'', VStr ''object''),
               (''schema'', VDict [(''city'', VStr ''string''), (''zip'', VStr ''number'')])]"
  let ?schema = "[(''city'', VStr ''string''), (''zip'', VStr ''number'')]"
  have t: "eq_str (dict_get ?node ''type'' VNone) ''object''"
    by (simp add: dict_get_def)
  have s: "dict_get ?node ''schema'' (VDict []) = VDict ?schema"
    by (simp add: dict_get_def)
  note inst = nested_object_validation [OF t s, where py_str = sample_str
      and field_name = "''address''"]
  have a: "validate_field_type sample_str ''address'' (VStr ''NYC'') (VDict ?node)
     = Inr (Some (''expected object for '' @ quoted ''address'' @ '', got str''))"
    using inst [where val = "VStr ''NYC''"] by simp
  have b: "validate_field_type sample_str ''address'' (VDict [(''city'', VStr ''NYC'')])
       (VDict ?node)
     = Inr (Some (''missing nested field '' @ quoted ''zip'' @ '' in '' @ quoted ''address''))"
    using inst [where passed = "[(''city'', VStr ''string'')]" and nested_field = "''zip''"
        and nested_type = "VStr ''number''" and rest = "[]"
        and value_dict = "[(''city'', VStr ''NYC'')]"]
    by (simp add: validate_field_type_tag)
  have c: "validate_field_type sample_str ''address''
       (VDict [(''city'', VInt 5), (''zip'', VStr ''10001'')]) (VDict ?node)
     = Inr (Some ''expected string, got int'')"
    using inst [where passed = "[]" and nested_field = "''city''"
        and nested_type = "VStr ''string''" and rest = "[(''zip'', VStr ''number'')]"
        and value_dict = "[(''city'', VInt 5), (''zip'', VStr ''10001'')]"
        and nested_value = "VInt 5" and error = "''expected string, got int''"]
    by (simp add: validate_field_type_tag)
  have d: "validate_field_type sample_str ''address''
       (VDict [(''city'', VStr ''NYC''), (''zip'', VInt 10001)]) (VDict ?node) = Inr None"
    using inst [where value_dict = "[(''city'', VStr ''NYC''), (''zip'', VInt 10001)]"]
    by (simp add: validate_field_type_tag)
  from a b c d show ?thesis by simp
qed

text \<open>
  C5. For an expected type that is not a dict and equals none of the six tags, the
  validator returns the message \<^verbatim>\<open>unsupported data type '<tag>' in config\<close>. The message
  names the tag; it does not name the field. The field name enters in
  \<^verbatim>\<open>validate_metadata\<close>: when the required fields are present, the entries before it pass
  and the field is in the metadata, \<^verbatim>\<open>HTTPException(400)\<close> is raised with the detail
  \<^verbatim>\<open>Incorrect data type for field '<field>': unsupported data type '<tag>' in config\<close>,
  which names the top-level field and the tag.
\<close>

theorem unsupported_type_message:
  assumes "\<not> isinstance_dict expected_type"
    and "\<forall>tag\<in>set [''string'', ''number'', ''boolean'', ''array'', ''object'', ''array_of_object''].
           \<not> eq_str expected_type tag"
  shows
   "validate_field_type py_str field_name val expected_type =
      Inr (Some (''unsupported data type '' @ quoted (fstr py_str expected_type) @ '' in config''))
    \<and> sublist (fstr py_str expected_type)
         (''unsupported data type '' @ quoted (fstr py_str expected_type) @ '' in config'')
    \<and> ((\<forall>f\<in>set required_fields. f \<in> fst ` set metadata) \<and>
        (\<forall>(f, t)\<in>set passed. \<forall>v. map_of metadata f = Some v \<longrightarrow>
            validate_field_type py_str f v t = Inr None) \<and>
        map_of metadata field = Some field_value \<longrightarrow>
        (let detail = ''Incorrect data type for field '' @ quoted field @ '': ''
                      @ ''unsupported data type '' @ quoted (fstr py_str expected_type)
                      @ '' in config''
         in validate_metadata py_str metadata required_fields
              (passed @ (field, expected_type) # rest) = Inl (HTTPException 400 detail)
            \<and> sublist field detail \<and> sublist (fstr py_str expected_type) detail))"
proof (intro conjI impI)
  show msg: "validate_field_type py_str field_name val expected_type =
      Inr (Some (''unsupported data type '' @ quoted (fstr py_str expected_type) @ '' in config''))"
    for field_name val
    using assms by (rule validate_field_type_unsupported)
  show "sublist (fstr py_str expected_type)
         (''unsupported data type '' @ quoted (fstr py_str expected_type) @ '' in config'')"
    by (rule sublist_quoted)
  assume h: "(\<forall>f\<in>set required_fields. f \<in> fst ` set metadata) \<and>
        (\<forall>(f, t)\<in>set passed. \<forall>v. map_of metadata f = Some v \<longrightarrow>
            validate_field_type py_str f v t = Inr None) \<and>
        map_of metadata field = Some field_value"
  let ?tag = "fstr py_str expected_type"
  let ?detail = "''Incorrect data type for field '' @ quoted field @ '': ''
                      @ ''unsupported data type '' @ quoted ?tag @ '' in config''"
  from h have "filter (\<lambda>f. \<not> py_in f metadata) required_fields = []"
    by (simp add: py_in_iff filter_empty_conv)
  then have "validate_metadata py_str metadata required_fields
               (passed @ (field, expected_type) # rest) =
             validate_typed_fields py_str metadata (passed @ (field, expected_type) # rest)"
    by (simp add: validate_metadata_def)
  also have "\<dots> = validate_typed_fields py_str metadata ((field, expected_type) # rest)"
    using h by (intro validate_typed_fields_passed) simp
  also have "\<dots> = Inl (HTTPException 400 ?detail)"
    using h by (simp add: msg quoted_def)
  finally have raised: "validate_metadata py_str metadata required_fields
               (passed @ (field, expected_type) # rest) = Inl (HTTPException 400 ?detail)" .
  have names_field: "sublist field ?detail"
    by (rule sublist_quoted)
  have "sublist ?tag ((''Incorrect data type for field '' @ quoted field @ '': ''
                      @ ''unsupported data type '') @ quoted ?tag @ '' in config'')"
    by (rule sublist_quoted)
  then have names_tag: "sublist ?tag ?detail"
    by simp
  from raised names_field names_tag
  show "let detail = ''Incorrect data type for field '' @ quoted field @ '': ''
                      @ ''unsupported data type '' @ quoted (fstr py_str expected_type)
                      @ '' in config''
         in validate_metadata py_str metadata required_fields
              (passed @ (field, expected_type) # rest) = Inl (HTTPException 400 detail)
            \<and> sublist field detail \<and> sublist (fstr py_str expected_type) detail"
    by (simp only: Let_def)
qed

theorem unsupported_type_message_witness:
  "validate_field_type sample_str ''address.zip'' (VInt 10001) (VStr ''date'') =
      Inr (Some (''unsupported data type '' @ quoted ''date'' @ '' in config''))
   \<and> validate_metadata sample_str [(''name'', VStr ''Ann''), (''born'', VStr ''2001-02-03'')]
        [''name''] ([(''name'', VStr ''string'')] @ (''born'', VStr ''date'') # [])
      = Inl (HTTPException 400 (''Incorrect data type for field '' @ quoted ''born'' @ '': ''
                      @ ''unsupported data type '' @ quoted ''date'' @ '' in config''))"
proof -
  have d: "\<not> isinstance_dict (VStr ''date'')" by simp
  have u: "\<forall>tag\<in>set [''string'', ''number'', ''boolean'', ''array'', ''object'',
             ''array_of_object'']. \<not> eq_str (VStr ''date'') tag"
    by simp
  show ?thesis
    using unsupported_type_message [OF d u, where py_str = sample_str
        and field_name = "''address.zip''" and val = "VInt 10001"
        and required_fields = "[''name'']"
        and metadata = "[(''name'', VStr ''Ann''), (''born'', VStr ''2001-02-03'')]"
        and passed = "[(''name'', VStr ''string'')]" and field = "''born''"
        and field_value = "VStr ''2001-02-03''" and rest = "[]"]
    by (simp add: validate_field_type_tag Let_def)
qed

text \<open>
  The validator's own message for the unknown tag \<^verbatim>\<open>date\<close> at field \<^verbatim>\<open>zip\<close>: the
  field name does not occur in it.
\<close>

theorem unsupported_type_message_counterexample:
  "validate_field_type sample_str ''zip'' (VInt 10001) (VStr ''date'') =
     Inr (Some (''unsupported data type '' @ quoted ''date'' @ '' in config''))
   \<and> \<not> sublist ''zip'' (''unsupported data type '' @ quoted ''date'' @ '' in config'')"
  by (simp add: validate_field_type_tag quoted_def sublist_code prefix_code)

text \<open>
  C6. Against the tag \<^verbatim>\<open>"array_of_object"\<close> the validator returns \<^verbatim>\<open>None\<close> exactly
  when the value is a list all of whose elements are dicts. When some element is not a dict
  the message is one fixed string, the same for every list, so it cannot tell which element
  failed.
\<close>

theorem array_of_object_check:
  "(validate_field_type py_str field_name value (VStr ''array_of_object'') = Inr None
      \<longleftrightarrow> (\<exists>items. value = VList items \<and> (\<forall>item\<in>set items. isinstance_dict item)))
   \<and> ((\<exists>items. value = VList items \<and> (\<exists>item\<in>set items. \<not> isinstance_dict item))
      \<longrightarrow> validate_field_type py_str field_name value (VStr ''array_of_object'') =
            Inr (Some ''expected array of objects, but one or more elements are not objects''))"
  by (cases "value") (auto simp: validate_field_type_tag list_all_iff)

theorem array_of_object_check_witness:
  "validate_field_type sample_str ''items''
       (VList [VDict [(''a'', VInt 1)], VDict [(''a'', VInt 2)]]) (VStr ''array_of_object'')
     = Inr None
   \<and> validate_field_type sample_str ''items''
       (VList [VDict [(''a'', VInt 1)], VInt 5]) (VStr ''array_of_object'')
     = Inr (Some ''expected array of objects, but one or more elements are not objects'')"
  using array_of_object_check [of sample_str "''items''"
          "VList [VDict [(''a'', VInt 1)], VDict [(''a'', VInt 2)]]"]
        array_of_object_check [of sample_str "''items''"
          "VList [VDict [(''a'', VInt 1)], VInt 5]"]
  by simp

text \<open>
  C9. A schema node tagged \<^verbatim>\<open>"object"\<close> with no \<^verbatim>\<open>"schema"\<close> entry, or with an empty
  one, accepts every dict value, whatever it holds.
\<close>

theorem object_node_without_schema:
  assumes "eq_str (dict_get expected_dict ''type'' VNone) ''object''"
    and "map_of expected_dict ''schema'' = None \<or> map_of expected_dict ''schema'' = Some (VDict [])"
  shows "validate_field_type py_str field_name (VDict value_dict) (VDict expected_dict) = Inr None"
  using assms by (auto simp: validate_field_type_node dict_get_def)

theorem object_node_without_schema_witness:
  "validate_field_type sample_str ''address''
       (VDict [(''city'', VInt 5), (''other'', VList [])])
       (VDict [(''type'', VStr ''object'')]) = Inr None
   \<and> validate_field_type sample_str ''address''
       (VDict [(''city'', VInt 5), (''other'', VList [])])
       (VDict [(''type'', VStr ''object''), (''schema'', VDict [])]) = Inr None"
proof -
  have t1: "eq_str (dict_get [(''type'', VStr ''object'')] ''type'' VNone) ''object''"
    by (simp add: dict_get_def)
  have s1: "map_of [(''type'', VStr ''object'')] ''schema'' = None \<or>
            map_of [(''type'', VStr ''object'')] ''schema'' = Some (VDict [])"
    by simp
  have t2: "eq_str (dict_get [(''type'', VStr ''object''), (''schema'', VDict [])] ''type'' VNone)
              ''object''"
    by (simp add: dict_get_def)
  have s2: "map_of [(''type'', VStr ''object''), (''schema'', VDict [])] ''schema'' = None \<or>
            map_of [(''type'', VStr ''object''), (''schema'', VDict [])] ''schema''
              = Some (VDict [])"
    by simp
  show ?thesis
    using object_node_without_schema [OF t1 s1] object_node_without_schema [OF t2 s2]
    by simp
qed

text \<open>
  C7. \<^verbatim>\<open>normalize_metadata\<close> is a total function of its two arguments and has no error
  result; the loop assigns to the new dict \<^verbatim>\<open>normalized\<close> only. Its result is a dict
  (each key once) whose keys are exactly the internal keys of the mapping entries whose
  consumer key is in the metadata: metadata keys without a mapping are dropped, and mapped
  keys absent from the metadata produce nothing. Under the internal key of such an entry
  the result holds the metadata value of its consumer key, provided no later entry with the
  same internal key has its consumer key in the metadata.
\<close>

theorem normalize_metadata_result:
  "fst ` set (normalize_metadata metadata mappings) =
     {internal_key. \<exists>consumer_key. (consumer_key, internal_key) \<in> set mappings \<and>
                      consumer_key \<in> fst ` set metadata}
   \<and> distinct (map fst (normalize_metadata metadata mappings))
   \<and> (mappings = before @ (consumer_key, internal_key) # after \<and>
       map_of metadata consumer_key = Some v \<and>
       (\<forall>(c, k)\<in>set after. k = internal_key \<longrightarrow> c \<notin> fst ` set metadata)
       \<longrightarrow> map_of (normalize_metadata metadata mappings) internal_key = Some v)"
proof (intro conjI impI)
  show "fst ` set (normalize_metadata metadata mappings) =
     {internal_key. \<exists>consumer_key. (consumer_key, internal_key) \<in> set mappings \<and>
                      consumer_key \<in> fst ` set metadata}"
    by (simp add: normalize_metadata_def normalize_loop_keys)
  show "distinct (map fst (normalize_metadata metadata mappings))"
    by (simp add: normalize_metadata_def normalize_loop_distinct)
  assume "mappings = before @ (consumer_key, internal_key) # after \<and>
       map_of metadata consumer_key = Some v \<and>
       (\<forall>(c, k)\<in>set after. k = internal_key \<longrightarrow> c \<notin> fst ` set metadata)"
  then show "map_of (normalize_metadata metadata mappings) internal_key = Some v"
    using normalize_metadata_last_write [of metadata consumer_key v after internal_key before]
    by blast
qed

theorem normalize_metadata_result_witness:
  "fst ` set (normalize_metadata [(''full_name'', VStr ''X''), (''extra'', VInt 1)]
                [(''full_name'', ''name''), (''phone'', ''tel'')]) = {''name''}
   \<and> map_of (normalize_metadata [(''full_name'', VStr ''X''), (''extra'', VInt 1)]
                [(''full_name'', ''name''), (''phone'', ''tel'')]) ''name'' = Some (VStr ''X'')
   \<and> normalize_metadata [(''full_name'', VStr ''X''), (''extra'', VInt 1)]
       [(''full_name'', ''name''), (''phone'', ''tel'')] = [(''name'', VStr ''X'')]"
  using normalize_metadata_result [where
        metadata = "[(''full_name'', VStr ''X''), (''extra'', VInt 1)]"
        and mappings = "[(''full_name'', ''name''), (''phone'', ''tel'')]"
        and before = "[]" and consumer_key = "''full_name''" and internal_key = "''name''"
        and after = "[(''phone'', ''tel'')]" and v = "VStr ''X''"]
  by (simp add: normalize_metadata_def)

text \<open>
  Without the proviso the statement fails: with both \<^verbatim>\<open>a\<close> and \<^verbatim>\<open>b\<close> renamed to
  \<^verbatim>\<open>x\<close>, the entry for \<^verbatim>\<open>a\<close> has its consumer key in the metadata, and the result
  does not hold the value of \<^verbatim>\<open>a\<close> under \<^verbatim>\<open>x\<close>.
\<close>

theorem normalize_metadata_collision_counterexample:
  "(''a'', ''x'') \<in> set [(''a'', ''x''), (''b'', ''x'')]
   \<and> py_in ''a'' [(''a'', VInt 1), (''b'', VInt 2)]
   \<and> map_of [(''a'', VInt 1), (''b'', VInt 2)] ''a'' = Some (VInt 1)
   \<and> normalize_metadata [(''a'', VInt 1), (''b'', VInt 2)] [(''a'', ''x''), (''b'', ''x'')]
       = [(''x'', VInt 2)]
   \<and> map_of (normalize_metadata [(''a'', VInt 1), (''b'', VInt 2)]
                [(''a'', ''x''), (''b'', ''x'')]) ''x'' \<noteq> Some (VInt 1)"
  by (simp add: normalize_metadata_def py_in_def)

text \<open>
  C8. When two entries of the mappings have the same internal key and the consumer keys of
  both are in the metadata, the result holds under that internal key the value of the later
  entry (the last of them, when more than two collide), and the result has fewer entries
  than there are mapping entries whose consumer key is in the metadata.
\<close>

theorem normalize_metadata_last_write_wins:
  assumes "mappings = before @ (first_key, internal_key) # between
                        @ (later_key, internal_key) # after"
    and "first_key \<in> fst ` set metadata"
    and "map_of metadata later_key = Some later_value"
    and "\<forall>(c, k)\<in>set after. k = internal_key \<longrightarrow> c \<notin> fst ` set metadata"
  shows "map_of (normalize_metadata metadata mappings) internal_key = Some later_value
         \<and> length (normalize_metadata metadata mappings)
             < length (filter (\<lambda>(c, k). py_in c metadata) mappings)"
proof
  show "map_of (normalize_metadata metadata mappings) internal_key = Some later_value"
    using normalize_metadata_last_write [OF assms(3) assms(4),
            of "before @ (first_key, internal_key) # between"]
    by (simp add: assms(1))
next
  let ?present = "filter (\<lambda>(c, k). py_in c metadata) mappings"
  let ?result = "normalize_metadata metadata mappings"
  have later: "later_key \<in> fst ` set metadata"
    using assms(3) by (rule map_of_Some_key)
  have "fst ` set ?result = snd ` set ?present"
    by (auto simp: normalize_metadata_def normalize_loop_keys py_in_iff) force+
  moreover have "distinct (map fst ?result)"
    by (simp add: normalize_metadata_def normalize_loop_distinct)
  ultimately have "length ?result = card (set (map snd ?present))"
    using distinct_card [of "map fst ?result"] by simp
  moreover have "\<not> distinct (map snd ?present)"
    using assms(1,2) later by (simp add: py_in_iff)
  ultimately show "length ?result < length ?present"
    using card_set_less_length [of "map snd ?present"] by simp
qed

theorem normalize_metadata_last_write_wins_witness:
  "map_of (normalize_metadata [(''mail'', VStr ''m''), (''email'', VStr ''e'')]
             ([] @ (''email'', ''contact'') # [] @ (''mail'', ''contact'') # []))
       ''contact'' = Some (VStr ''m'')
   \<and> length (normalize_metadata [(''mail'', VStr ''m''), (''email'', VStr ''e'')]
             ([] @ (''email'', ''contact'') # [] @ (''mail'', ''contact'') # [])) = 1
   \<and> length (filter (\<lambda>(c, k). py_in c [(''mail'', VStr ''m''), (''email'', VStr ''e'')])
             ([] @ (''email'', ''contact'') # [] @ (''mail'', ''contact'') # [])) = 2"
proof -
  have present: "''email'' \<in> fst ` set [(''mail'', VStr ''m''), (''email'', VStr ''e'')]"
    by simp
  have later: "map_of [(''mail'', VStr ''m''), (''email'', VStr ''e'')] ''mail''
                 = Some (VStr ''m'')"
    by simp
  have last: "\<forall>(c, k)\<in>set []. k = ''contact'' \<longrightarrow>
                c \<notin> fst ` set [(''mail'', VStr ''m''), (''email'', VStr ''e'')]"
    by simp
  show ?thesis
    using normalize_metadata_last_write_wins [OF refl present later last, of "[]" "[]"]
    by (simp add: normalize_metadata_def py_in_def)
qed

text \<open>
  C10. Presence of a required field is membership of its key: a field whose value is
  \<^verbatim>\<open>None\<close> is present, so listing it as required changes nothing. When the field has no
  entry in \<^verbatim>\<open>field_types\<close> its value is never looked at: the outcome for the metadata
  with the field null is the outcome with any other value in its place, and the metadata
  made of that one null field, with the field required, is accepted.
\<close>

theorem null_required_field_is_present:
  "(map_of metadata field = Some VNone \<longrightarrow>
      validate_metadata py_str metadata required_fields field_types =
      validate_metadata py_str metadata (removeAll field required_fields) field_types)
   \<and> (map_of metadata field = Some VNone \<and> field \<notin> fst ` set field_types \<longrightarrow>
      validate_metadata py_str metadata required_fields field_types =
      validate_metadata py_str (AList.update field v metadata) required_fields field_types)
   \<and> (field \<notin> fst ` set field_types \<longrightarrow>
      validate_metadata py_str [(field, VNone)] [field] field_types = Inr ())"
proof (intro conjI impI)
  assume null: "map_of metadata field = Some VNone"
  then have "py_in field metadata"
    by (simp add: py_in_def)
  then have "filter (\<lambda>f. \<not> py_in f metadata) (removeAll field required_fields) =
             filter (\<lambda>f. \<not> py_in f metadata) required_fields"
    by (induction required_fields) auto
  then show "validate_metadata py_str metadata required_fields field_types =
      validate_metadata py_str metadata (removeAll field required_fields) field_types"
    by (simp only: validate_metadata_def)
next
  assume h: "map_of metadata field = Some VNone \<and> field \<notin> fst ` set field_types"
  then have key: "field \<in> fst ` set metadata"
    by (auto intro: map_of_Some_key)
  have "py_in f (AList.update field v metadata) = py_in f metadata" for f
    using key by (auto simp: py_in_iff dom_update)
  then have same_missing: "filter (\<lambda>f. \<not> py_in f (AList.update field v metadata)) required_fields
        = filter (\<lambda>f. \<not> py_in f metadata) required_fields"
    by simp
  have "\<forall>f\<in>fst ` set field_types.
          map_of metadata f = map_of (AList.update field v metadata) f"
    using h by (auto simp: update_conv')
  then have "validate_typed_fields py_str metadata field_types =
             validate_typed_fields py_str (AList.update field v metadata) field_types"
    by (rule validate_typed_fields_cong)
  with same_missing show "validate_metadata py_str metadata required_fields field_types =
      validate_metadata py_str (AList.update field v metadata) required_fields field_types"
    by (simp only: validate_metadata_def)
next
  assume untyped: "field \<notin> fst ` set field_types"
  then have "\<forall>(f, t)\<in>set field_types. f \<noteq> field"
    by force
  then have "validate_typed_fields py_str [(field, VNone)] (field_types @ []) =
             validate_typed_fields py_str [(field, VNone)] []"
    by (intro validate_typed_fields_passed) auto
  then show "validate_metadata py_str [(field, VNone)] [field] field_types = Inr ()"
    by (simp add: validate_metadata_def py_in_def)
qed

theorem null_required_field_is_present_witness:
  "validate_metadata sample_str [(''name'', VStr ''Ann''), (''nick'', VNone)]
       [''name'', ''nick''] [(''name'', VStr ''string'')] = Inr ()
   \<and> validate_metadata sample_str [(''nick'', VNone)] [''nick''] [(''name'', VStr ''string'')]
       = Inr ()"
  using null_required_field_is_present [where metadata = "[(''name'', VStr ''Ann''), (''nick'', VNone)]"
      and field = "''nick''" and py_str = sample_str and required_fields = "[''name'', ''nick'']"
      and field_types = "[(''name'', VStr ''string'')]" and v = "VStr ''Annie''"]
  by (simp add: validate_metadata_def py_in_def validate_field_type_tag)

end
